theory Spec2Isabelle
  imports Main "HOL-Library.Word"
begin

unbundle bit_operations_syntax

section \<open>The NetFlow v5 collector of gonflux (main.go)\<close>

text \<open>
  A shallow embedding of \<^verbatim>\<open>main.go\<close>: the wire structures, the decoder
  (\<^verbatim>\<open>handlePacket\<close>), the enrichment (\<^verbatim>\<open>decodeRecord\<close>), the reverse-DNS
  cache (\<^verbatim>\<open>lookUpWithCache\<close>) and the line-protocol rendering
  (\<^verbatim>\<open>formatLineProtocol\<close>). Go's fixed-width unsigned integers are words; the
  process-wide cache, the wall clock, the resolver and the log are an explicit world that
  every effectful function takes and returns.
\<close>

subsection \<open>Data model\<close>

type_synonym byte = "8 word"

record header =
  Version :: "16 word"
  FlowRecords :: "16 word"
  Uptime :: "32 word"
  UnixSec :: "32 word"
  UnixNsec :: "32 word"
  FlowSeqNum :: "32 word"
  EngineType :: "8 word"
  EngineID :: "8 word"
  SamplingInterval :: "16 word"

text \<open>
  The two blank fields of \<^verbatim>\<open>binaryRecord\<close> (one byte before \<^verbatim>\<open>TCPFlags\<close>, two
  bytes at the end) take room on the wire, but \<^verbatim>\<open>binary.Read\<close> skips them and
  leaves them zero, so the record of the model has no field for them.
\<close>

record binaryRecord =
  Ipv4SrcAddrInt :: "32 word"
  Ipv4DstAddrInt :: "32 word"
  Ipv4NextHopInt :: "32 word"
  InputSnmp :: "16 word"
  OutputSnmp :: "16 word"
  InPkts :: "32 word"
  InBytes :: "32 word"
  FirstInt :: "32 word"
  LastInt :: "32 word"
  L4SrcPort :: "16 word"
  L4DstPort :: "16 word"
  TCPFlags :: "8 word"
  Protocol :: "8 word"
  SrcTos :: "8 word"
  SrcAs :: "16 word"
  DstAs :: "16 word"
  SrcMask :: "8 word"
  DstMask :: "8 word"

text \<open>
  \<^verbatim>\<open>decodedRecord\<close> embeds a \<^verbatim>\<open>header\<close> and a \<^verbatim>\<open>binaryRecord\<close>; the model holds
  them as the fields \<open>hdr\<close> and \<open>binRecord\<close>. The promoted field
  \<^verbatim>\<open>decodedRecord.SamplingInterval\<close> is \<open>SamplingInterval (hdr d)\<close>.
\<close>

record decodedRecord =
  hdr :: header
  binRecord :: binaryRecord
  Host :: string
  SamplingAlgorithm :: "8 word"
  Ipv4SrcAddr :: string
  Ipv4DstAddr :: string
  Ipv4NextHop :: string
  SrcHostName :: string
  DstHostName :: string
  Duration :: "16 word"

subsection \<open>Decimal text\<close>

text \<open>
  What \<^verbatim>\<open>%d\<close> and \<^verbatim>\<open>net.IP.String\<close> print for an unsigned number: its decimal
  digits, most significant first, no sign and no leading zero.
\<close>

definition digit_char :: "nat \<Rightarrow> char" where
  "digit_char n = ''0123456789'' ! n"

function itoa :: "nat \<Rightarrow> string" where
  "itoa n = (if n < 10 then [digit_char n] else itoa (n div 10) @ [digit_char (n mod 10)])"
  by pat_completeness auto
termination
  by (relation "measure id") auto

declare itoa.simps [simp del]

text \<open>Reading decimal digits back, to state that \<open>itoa\<close> writes the number it is given.\<close>

definition digit_value :: "char \<Rightarrow> nat" where
  "digit_value c = of_char c - 48"

definition decimal_value :: "string \<Rightarrow> nat" where
  "decimal_value s = foldl (\<lambda>acc c. 10 * acc + digit_value c) 0 s"

subsection \<open>Addresses\<close>

text \<open>
  \<^verbatim>\<open>net.IPv4(a, b, c, d)\<close> is the 16-byte IPv4-mapped address that ends in the four
  bytes given, and \<^verbatim>\<open>String\<close> prints such an address as the dotted decimal of
  those four bytes. The model keeps the four bytes, so an \<open>IP\<close> of the model is
  always an IPv4 address. \<^verbatim>\<open>byte(x)\<close> keeps the low eight bits, as \<open>ucast\<close> does.
\<close>

type_synonym IP = "byte \<times> byte \<times> byte \<times> byte"

definition intToIPv4Addr :: "32 word \<Rightarrow> IP" where
  "intToIPv4Addr intAddr =
     (ucast (drop_bit 24 intAddr), ucast (drop_bit 16 intAddr),
      ucast (drop_bit 8 intAddr), ucast intAddr)"

fun IP_String :: "IP \<Rightarrow> string" where
  "IP_String (a, b, c, d) =
     itoa (unat a) @ ''.'' @ itoa (unat b) @ ''.'' @ itoa (unat c) @ ''.'' @ itoa (unat d)"

subsection \<open>The world: clock, resolver, cache, log\<close>

text \<open>
  A \<^verbatim>\<open>time.Time\<close> is an instant: the number of nanoseconds since the zero
  \<^verbatim>\<open>Time\<close>, so the zero value is \<open>0\<close>. Every time of the program comes from
  \<^verbatim>\<open>time.Now()\<close>, which is never before the zero \<^verbatim>\<open>Time\<close>.
\<close>

type_synonym time = nat

definition After :: "time \<Rightarrow> time \<Rightarrow> bool" where
  "After t u = (u < t)"

record cacheRecord =
  Hostname :: string
  timeout :: time

definition zero_cacheRecord :: cacheRecord where
  "zero_cacheRecord = \<lparr>Hostname = [], timeout = 0\<rparr>"

text \<open>
  The environment the process runs in. \<open>clock env n\<close> is what the \<open>n\<close>-th call of
  \<^verbatim>\<open>time.Now()\<close> returns (counting from 0), \<open>resolver env n ip\<close> is what the
  \<open>n\<close>-th call of \<^verbatim>\<open>net.LookupAddr\<close> returns when its argument is \<open>ip\<close>: the
  list of names and the error (\<open>None\<close> is \<^verbatim>\<open>nil\<close>). \<open>add_day env t\<close> is
  \<^verbatim>\<open>t.AddDate(0, 0, 1)\<close>, the same wall-clock reading on the next calendar day
  of the local time zone.
\<close>

record env =
  clock :: "nat \<Rightarrow> time"
  resolver :: "nat \<Rightarrow> string \<Rightarrow> string list \<times> string option"
  add_day :: "time \<Rightarrow> time"

text \<open>
  The state: the global \<^verbatim>\<open>cache\<close> map, how often the clock has been read, the
  arguments of the calls of \<^verbatim>\<open>net.LookupAddr\<close> made so far, and the messages
  given to \<^verbatim>\<open>log.Printf\<close> (without the logger's prefix and the final newline).
\<close>

record world =
  cache :: "string \<Rightarrow> cacheRecord option"
  clock_reads :: nat
  lookups :: "string list"
  logged :: "string list"

definition time_Now :: "env \<Rightarrow> world \<Rightarrow> time \<times> world" where
  "time_Now env w = (clock env (clock_reads w), w\<lparr>clock_reads := Suc (clock_reads w)\<rparr>)"

definition net_LookupAddr ::
  "env \<Rightarrow> string \<Rightarrow> world \<Rightarrow> (string list \<times> string option) \<times> world" where
  "net_LookupAddr env addr w =
     (resolver env (length (lookups w)) addr, w\<lparr>lookups := lookups w @ [addr]\<rparr>)"

definition log_Printf :: "string \<Rightarrow> world \<Rightarrow> world" where
  "log_Printf msg w = w\<lparr>logged := logged w @ [msg]\<rparr>"

text \<open>Indexing a Go map: the zero value of the element type when the key is absent.\<close>

definition map_index :: "(string \<Rightarrow> cacheRecord option) \<Rightarrow> string \<Rightarrow> cacheRecord" where
  "map_index m k = (case m k of None \<Rightarrow> zero_cacheRecord | Some r \<Rightarrow> r)"

text \<open>A run-time panic ends the process: no goroutine of the program recovers.\<close>

datatype panic = IndexOutOfRange

subsection \<open>The reverse-DNS cache\<close>

text \<open>
  \<^verbatim>\<open>lookUpWithCache\<close>. The right operand of \<^verbatim>\<open>||\<close> is evaluated, and the clock
  read, only when the entry is not the zero value. \<^verbatim>\<open>hostTemp[0]\<close> panics on an
  empty slice. The mutex is taken for the map read and the map write only; the model is
  one call running alone.
\<close>

definition cache_store :: "env \<Rightarrow> string \<Rightarrow> string \<Rightarrow> world \<Rightarrow> world" where
  "cache_store env ipAddr hostname w =
     (let (now, w1) = time_Now env w
      in w1\<lparr>cache := (cache w1)(ipAddr \<mapsto> \<lparr>Hostname = hostname, timeout = add_day env now\<rparr>)\<rparr>)"

definition cache_expired :: "env \<Rightarrow> cacheRecord \<Rightarrow> world \<Rightarrow> bool \<times> world" where
  "cache_expired env hostnameFromCache w =
     (if hostnameFromCache = zero_cacheRecord then (True, w)
      else (let (now, w1) = time_Now env w in (After now (timeout hostnameFromCache), w1)))"

definition lookUpWithCache :: "env \<Rightarrow> string \<Rightarrow> world \<Rightarrow> (panic + string) \<times> world" where
  "lookUpWithCache env ipAddr w =
     (let hostnameFromCache = map_index (cache w) ipAddr;
          (expired, w1) = cache_expired env hostnameFromCache w
      in if expired then
           (let ((hostTemp, err), w2) = net_LookupAddr env ipAddr w1
            in if err = None then
                 (case hostTemp of
                    [] \<Rightarrow> (Inl IndexOutOfRange, w2)
                  | name # _ \<Rightarrow> (Inr name, cache_store env ipAddr name w2))
               else (Inr ipAddr, cache_store env ipAddr ipAddr w2))
         else (Inr (Hostname hostnameFromCache), w1))"

subsection \<open>Enrichment\<close>

text \<open>
  \<^verbatim>\<open>decodeRecord\<close>. \<open>remoteHost\<close> is \<^verbatim>\<open>remoteAddr.IP.String()\<close>, the text of
  the sender's address. The subtraction and the division are those of \<^verbatim>\<open>uint32\<close>
  (on words \<open>-\<close> wraps and \<open>div\<close> is the unsigned quotient), and
  \<^verbatim>\<open>uint16(...)\<close> and \<^verbatim>\<open>uint8(...)\<close> keep the low bits.
\<close>

definition decodeRecord ::
  "env \<Rightarrow> header \<Rightarrow> binaryRecord \<Rightarrow> string \<Rightarrow> world \<Rightarrow> (panic + decodedRecord) \<times> world" where
  "decodeRecord env h binRec remoteHost w =
     (let d0 = \<lparr>hdr = h, binRecord = binRec, Host = remoteHost, SamplingAlgorithm = 0,
                Ipv4SrcAddr = IP_String (intToIPv4Addr (Ipv4SrcAddrInt binRec)),
                Ipv4DstAddr = IP_String (intToIPv4Addr (Ipv4DstAddrInt binRec)),
                Ipv4NextHop = IP_String (intToIPv4Addr (Ipv4NextHopInt binRec)),
                SrcHostName = [], DstHostName = [],
                Duration = ucast ((LastInt binRec - FirstInt binRec) div 1000)\<rparr>
      in case lookUpWithCache env (Ipv4SrcAddr d0) w of
           (Inl p, w1) \<Rightarrow> (Inl p, w1)
         | (Inr src, w1) \<Rightarrow>
             (case lookUpWithCache env (Ipv4DstAddr d0) w1 of
                (Inl p, w2) \<Rightarrow> (Inl p, w2)
              | (Inr dst, w2) \<Rightarrow>
                  (let d1 = d0\<lparr>SrcHostName := src, DstHostName := dst\<rparr>;
                       d2 = d1\<lparr>SamplingAlgorithm :=
                                 ucast (3 AND drop_bit 14 (SamplingInterval (hdr d1)))\<rparr>;
                       d3 = d2\<lparr>hdr := (hdr d2)\<lparr>SamplingInterval :=
                                 16383 AND SamplingInterval (hdr d2)\<rparr>\<rparr>
                   in (Inr d3, w2))))"

subsection \<open>Line protocol\<close>

text \<open>
  \<^verbatim>\<open>formatLineProtocol\<close>: \<^verbatim>\<open>%s\<close> copies the string, \<^verbatim>\<open>%d\<close> prints the
  unsigned value in decimal. The timestamp is computed in \<^verbatim>\<open>uint64\<close>.
\<close>

definition formatLineProtocol :: "decodedRecord \<Rightarrow> string" where
  "formatLineProtocol record =
     ''netflow,host='' @ Host record
     @ '',srcAddr='' @ Ipv4SrcAddr record
     @ '',dstAddr='' @ Ipv4DstAddr record
     @ '',srcHostName='' @ SrcHostName record
     @ '',dstHostName='' @ DstHostName record
     @ '',protocol='' @ itoa (unat (Protocol (binRecord record)))
     @ '',srcPort='' @ itoa (unat (L4SrcPort (binRecord record)))
     @ '',dstPort='' @ itoa (unat (L4DstPort (binRecord record)))
     @ '',input='' @ itoa (unat (InputSnmp (binRecord record)))
     @ '',output='' @ itoa (unat (OutputSnmp (binRecord record)))
     @ '' inBytes='' @ itoa (unat (InBytes (binRecord record)))
     @ '',inPackets='' @ itoa (unat (InPkts (binRecord record)))
     @ '',duration='' @ itoa (unat (Duration record))
     @ '' '' @ itoa (unat ((ucast (UnixSec (hdr record)) :: 64 word) * 1000000000
                           + ucast (UnixNsec (hdr record))))"

subsection \<open>Reading the wire format\<close>

text \<open>
  \<^verbatim>\<open>binary.BigEndian\<close>: the first byte is the most significant. The decoders index a
  slice that \<^verbatim>\<open>binary.Read\<close> has filled completely before it decodes.
\<close>

definition Uint16 :: "byte list \<Rightarrow> 16 word" where
  "Uint16 b = ucast (b ! 1) OR push_bit 8 (ucast (b ! 0))"

definition Uint32 :: "byte list \<Rightarrow> 32 word" where
  "Uint32 b = ucast (b ! 3) OR push_bit 8 (ucast (b ! 2)) OR push_bit 16 (ucast (b ! 1))
              OR push_bit 24 (ucast (b ! 0))"

definition Uint8 :: "byte list \<Rightarrow> 8 word" where
  "Uint8 b = b ! 0"

text \<open>
  \<^verbatim>\<open>binary.Read\<close> into a struct decodes the fields in the order of their
  declaration, each at the offset where the one before it ends, and skips the bytes of a
  blank field. A \<^verbatim>\<open>header\<close> takes 24 bytes, a \<^verbatim>\<open>binaryRecord\<close> 48.
\<close>

definition header_size :: nat where
  "header_size = 2 + 2 + 4 + 4 + 4 + 4 + 1 + 1 + 2"

definition binaryRecord_size :: nat where
  "binaryRecord_size = 4 + 4 + 4 + 2 + 2 + 4 + 4 + 4 + 4 + 2 + 2 + 1 + 1 + 1 + 1 + 2 + 2 + 1 + 1 + 2"

definition decode_header :: "byte list \<Rightarrow> header" where
  "decode_header bs =
     \<lparr>Version = Uint16 bs,
      FlowRecords = Uint16 (drop 2 bs),
      Uptime = Uint32 (drop 4 bs),
      UnixSec = Uint32 (drop 8 bs),
      UnixNsec = Uint32 (drop 12 bs),
      FlowSeqNum = Uint32 (drop 16 bs),
      EngineType = Uint8 (drop 20 bs),
      EngineID = Uint8 (drop 21 bs),
      SamplingInterval = Uint16 (drop 22 bs)\<rparr>"

definition decode_binaryRecord :: "byte list \<Rightarrow> binaryRecord" where
  "decode_binaryRecord bs =
     \<lparr>Ipv4SrcAddrInt = Uint32 bs,
      Ipv4DstAddrInt = Uint32 (drop 4 bs),
      Ipv4NextHopInt = Uint32 (drop 8 bs),
      InputSnmp = Uint16 (drop 12 bs),
      OutputSnmp = Uint16 (drop 14 bs),
      InPkts = Uint32 (drop 16 bs),
      InBytes = Uint32 (drop 20 bs),
      FirstInt = Uint32 (drop 24 bs),
      LastInt = Uint32 (drop 28 bs),
      L4SrcPort = Uint16 (drop 32 bs),
      L4DstPort = Uint16 (drop 34 bs),
      TCPFlags = Uint8 (drop 37 bs),
      Protocol = Uint8 (drop 38 bs),
      SrcTos = Uint8 (drop 39 bs),
      SrcAs = Uint16 (drop 40 bs),
      DstAs = Uint16 (drop 42 bs),
      SrcMask = Uint8 (drop 44 bs),
      DstMask = Uint8 (drop 45 bs)\<rparr>"

text \<open>
  \<^verbatim>\<open>io.ReadFull\<close> on the \<^verbatim>\<open>bytes.Buffer\<close>: \<^verbatim>\<open>io.EOF\<close> when the buffer is
  empty, \<^verbatim>\<open>io.ErrUnexpectedEOF\<close> when it holds fewer bytes than asked for, else the
  bytes read and the buffer that remains.
\<close>

datatype io_error = EOF | ErrUnexpectedEOF

fun Error :: "io_error \<Rightarrow> string" where
  "Error EOF = ''EOF''"
| "Error ErrUnexpectedEOF = ''unexpected EOF''"

definition io_ReadFull :: "nat \<Rightarrow> byte list \<Rightarrow> io_error + byte list \<times> byte list" where
  "io_ReadFull n buf =
     (if n \<le> length buf then Inr (take n buf, drop n buf)
      else if buf = [] then Inl EOF else Inl ErrUnexpectedEOF)"

definition binary_Read_header :: "byte list \<Rightarrow> io_error + header \<times> byte list" where
  "binary_Read_header buf =
     (case io_ReadFull header_size buf of
        Inl err \<Rightarrow> Inl err
      | Inr (bs, rest) \<Rightarrow> Inr (decode_header bs, rest))"

definition binary_Read_binaryRecord :: "byte list \<Rightarrow> io_error + binaryRecord \<times> byte list" where
  "binary_Read_binaryRecord buf =
     (case io_ReadFull binaryRecord_size buf of
        Inl err \<Rightarrow> Inl err
      | Inr (bs, rest) \<Rightarrow> Inr (decode_binaryRecord bs, rest))"

subsection \<open>Handling one datagram\<close>

text \<open>
  \<^verbatim>\<open>handlePacket\<close> returns the records it has put on the output channel, in the
  order it sent them, how it ended, and the world it leaves. The loop
  \<^verbatim>\<open>for i := 0; i < int(header.FlowRecords); i++\<close> is \<open>handleRecords\<close>, by
  recursion on the number of iterations that are left. A panic in
  \<^verbatim>\<open>decodeRecord\<close> ends the run after the records sent so far.
\<close>

datatype outcome = Returned | Panicked panic

fun handleRecords ::
  "env \<Rightarrow> header \<Rightarrow> string \<Rightarrow> nat \<Rightarrow> byte list \<Rightarrow> world \<Rightarrow> decodedRecord list \<times> outcome \<times> world" where
  "handleRecords env h remoteHost 0 buf w = ([], Returned, w)"
| "handleRecords env h remoteHost (Suc n) buf w =
     (case binary_Read_binaryRecord buf of
        Inl err \<Rightarrow> ([], Returned, log_Printf (''binary.Read failed: '' @ Error err) w)
      | Inr (record, buf') \<Rightarrow>
          (case decodeRecord env h record remoteHost w of
             (Inl p, w1) \<Rightarrow> ([], Panicked p, w1)
           | (Inr d, w1) \<Rightarrow>
               (case handleRecords env h remoteHost n buf' w1 of
                  (ds, oc, w2) \<Rightarrow> (d # ds, oc, w2))))"

definition handlePacket ::
  "env \<Rightarrow> byte list \<Rightarrow> string \<Rightarrow> world \<Rightarrow> decodedRecord list \<times> outcome \<times> world" where
  "handlePacket env buf remoteHost w =
     (case binary_Read_header buf of
        Inl err \<Rightarrow> ([], Returned, log_Printf (''Error: '' @ Error err) w)
      | Inr (h, buf') \<Rightarrow> handleRecords env h remoteHost (unat (FlowRecords h)) buf' w)"

subsection \<open>The wire layout, written out\<close>

text \<open>
  The big-endian layout that \<open>decode_header\<close> and \<open>decode_binaryRecord\<close> read,
  as an encoder: what a test writes to build a datagram. The two paddings of a record
  are bytes of the datagram like any other, so the encoder takes their values.
\<close>

definition PutUint16 :: "16 word \<Rightarrow> byte list" where
  "PutUint16 v = [ucast (drop_bit 8 v), ucast v]"

definition PutUint32 :: "32 word \<Rightarrow> byte list" where
  "PutUint32 v = [ucast (drop_bit 24 v), ucast (drop_bit 16 v), ucast (drop_bit 8 v), ucast v]"

definition encode_header :: "header \<Rightarrow> byte list" where
  "encode_header h =
     PutUint16 (Version h) @ PutUint16 (FlowRecords h) @ PutUint32 (Uptime h)
     @ PutUint32 (UnixSec h) @ PutUint32 (UnixNsec h) @ PutUint32 (FlowSeqNum h)
     @ [EngineType h, EngineID h] @ PutUint16 (SamplingInterval h)"

definition encode_binaryRecord :: "byte \<Rightarrow> 16 word \<Rightarrow> binaryRecord \<Rightarrow> byte list" where
  "encode_binaryRecord pad1 pad2 r =
     PutUint32 (Ipv4SrcAddrInt r) @ PutUint32 (Ipv4DstAddrInt r) @ PutUint32 (Ipv4NextHopInt r)
     @ PutUint16 (InputSnmp r) @ PutUint16 (OutputSnmp r)
     @ PutUint32 (InPkts r) @ PutUint32 (InBytes r)
     @ PutUint32 (FirstInt r) @ PutUint32 (LastInt r)
     @ PutUint16 (L4SrcPort r) @ PutUint16 (L4DstPort r)
     @ [pad1, TCPFlags r, Protocol r, SrcTos r]
     @ PutUint16 (SrcAs r) @ PutUint16 (DstAs r)
     @ [SrcMask r, DstMask r] @ PutUint16 pad2"

text \<open>A datagram: the header, then the records with their paddings, one after the other.\<close>

definition encode_records :: "(byte \<times> 16 word \<times> binaryRecord) list \<Rightarrow> byte list" where
  "encode_records rs = concat (map (\<lambda>(pad1, pad2, r). encode_binaryRecord pad1 pad2 r) rs)"

definition encode_datagram :: "header \<Rightarrow> (byte \<times> 16 word \<times> binaryRecord) list \<Rightarrow> byte list" where
  "encode_datagram h rs = encode_header h @ encode_records rs"

text \<open>An environment whose resolver never reports success with an empty list of names.\<close>

definition resolver_ok :: "env \<Rightarrow> bool" where
  "resolver_ok env = (\<forall>n ip. resolver env n ip \<noteq> ([], None))"

text \<open>A decoded record with another value in the version field of its header.\<close>

definition with_Version :: "16 word \<Rightarrow> decodedRecord \<Rightarrow> decodedRecord" where
  "with_Version v d = d\<lparr>hdr := (hdr d)\<lparr>Version := v\<rparr>\<rparr>"

subsection \<open>Notions used to state the properties of the cache\<close>


text \<open>The condition of the \<^verbatim>\<open>if\<close> in \<^verbatim>\<open>lookUpWithCache\<close>: the resolver is asked.\<close>

definition slow_path :: "env \<Rightarrow> string \<Rightarrow> world \<Rightarrow> bool" where
  "slow_path env ip w = fst (cache_expired env (map_index (cache w) ip) w)"


subsection \<open>Concrete inputs\<close>

text \<open>
  A clock that starts at 1000 and advances by one at every reading, a resolver that
  knows every address but \<open>192.0.2.7\<close>, and days of 24 hours.
\<close>

definition example_env :: env where
  "example_env =
     \<lparr>clock = (\<lambda>n. 1000 + n),
      resolver = (\<lambda>n ip. if ip = ''192.0.2.7'' then ([], Some ''no such host'')
                          else ([''gw.example.'', ''alias.example.''], None)),
      add_day = (\<lambda>t. t + 86400000000000)\<rparr>"

text \<open>A resolver that reports success and no name.\<close>

definition empty_answer_env :: env where
  "empty_answer_env = example_env\<lparr>resolver := (\<lambda>n ip. ([], None))\<rparr>"

definition example_world :: world where
  "example_world = \<lparr>cache = Map.empty, clock_reads = 0, lookups = [], logged = []\<rparr>"





definition example_header :: header where
  "example_header =
     \<lparr>Version = 5, FlowRecords = 1, Uptime = 360000, UnixSec = 1500000000, UnixNsec = 7,
      FlowSeqNum = 42, EngineType = 0, EngineID = 0, SamplingInterval = 0xC064\<rparr>"

definition example_record :: binaryRecord where
  "example_record =
     \<lparr>Ipv4SrcAddrInt = 0x0A000001, Ipv4DstAddrInt = 0xC0000207, Ipv4NextHopInt = 0,
      InputSnmp = 1, OutputSnmp = 2, InPkts = 10, InBytes = 1200,
      FirstInt = 0xFFFFFFF0, LastInt = 0x00000010, L4SrcPort = 443, L4DstPort = 51000,
      TCPFlags = 0x1B, Protocol = 6, SrcTos = 0, SrcAs = 64500, DstAs = 64501,
      SrcMask = 24, DstMask = 24\<rparr>"

definition example_decoded :: decodedRecord where
  "example_decoded =
     \<lparr>hdr = example_header\<lparr>SamplingInterval := 100\<rparr>, binRecord = example_record,
      Host = ''192.0.2.9'', SamplingAlgorithm = 3, Ipv4SrcAddr = ''10.0.0.1'',
      Ipv4DstAddr = ''192.0.2.7'', Ipv4NextHop = ''0.0.0.0'', SrcHostName = ''gw.example.'',
      DstHostName = ''192.0.2.7'', Duration = 0\<rparr>"

text \<open>A flow of 65536000 milliseconds.\<close>

definition long_flow :: binaryRecord where
  "long_flow = example_record\<lparr>FirstInt := 0, LastInt := 65536000\<rparr>"

text \<open>Two records, with paddings that are not zero, under a header that declares two.\<close>

definition two_records :: "(byte \<times> 16 word \<times> binaryRecord) list" where
  "two_records = [(0, 0, example_record), (0xAB, 0xCDEF, long_flow)]"

text \<open>A header that declares two records, one complete record, and three more bytes.\<close>

definition truncated_datagram :: "byte list" where
  "truncated_datagram =
     encode_datagram (example_header\<lparr>FlowRecords := 2\<rparr>) [(0, 0, example_record)] @ [1, 2, 3]"

text \<open>
  A datagram of 20 + 48 bytes: the first 20 bytes of the header (the fields up to the
  flow sequence number), then one record.
\<close>

definition short_header_datagram :: "byte list" where
  "short_header_datagram =
     take 20 (encode_header example_header) @ encode_records [(0, 0, example_record)]"

section \<open>Properties\<close>

subsection \<open>Words as numbers\<close>

lemma unat_drop_bit_div:
  "unat (drop_bit n x) = unat x div 2 ^ n"
  by (subst unat_drop_bit_eq) (rule drop_bit_eq_div)

lemma uint_duration:
  fixes a b :: "32 word"
  shows "uint (ucast ((b - a) div 1000) :: 16 word)
           = ((uint b - uint a) mod 2 ^ 32) div 1000 mod 2 ^ 16"
  by (simp add: unsigned_ucast_eq take_bit_eq_mod uint_div_distrib uint_word_ariths)

lemma unat_sampling:
  fixes x :: "16 word"
  shows "unat (ucast (3 AND drop_bit 14 x) :: 8 word) = unat x div 2 ^ 14"
    and "unat (16383 AND x) = unat x mod 2 ^ 14"
proof -
  have m3: "3 AND y = take_bit 2 y" and m14: "16383 AND y = take_bit 14 y" for y :: "16 word"
    by (simp_all add: take_bit_eq_mask mask_eq_exp_minus_1 and.commute)
  have "unat x < 2 ^ LENGTH(16)"
    by (rule unsigned_less)
  then have small: "unat x div 2 ^ 14 < 4"
    by simp
  have "unat (ucast (take_bit 2 (drop_bit 14 x)) :: 8 word)
          = take_bit 2 (take_bit LENGTH(8) (unat (drop_bit 14 x)))"
    by (simp only: unsigned_ucast_eq unsigned_take_bit_eq)
  also have "\<dots> = (unat x div 2 ^ 14) mod 2 ^ LENGTH(8) mod 2 ^ 2"
    by (simp only: take_bit_eq_mod unat_drop_bit_div)
  also have "\<dots> = unat x div 2 ^ 14"
    using small by simp
  finally show "unat (ucast (3 AND drop_bit 14 x) :: 8 word) = unat x div 2 ^ 14"
    by (simp only: m3)
  have "unat (take_bit 14 x) = unat x mod 2 ^ 14"
    by (subst unsigned_take_bit_eq) (rule take_bit_eq_mod)
  then show "unat (16383 AND x) = unat x mod 2 ^ 14"
    by (simp only: m14)
qed

lemma unat_low_byte:
  fixes y :: "32 word"
  shows "unat (ucast y :: 8 word) = unat y mod 256"
proof -
  have "unat (ucast y :: 8 word) = take_bit 8 (unat y)"
    by (simp only: unsigned_ucast_eq) simp
  then show ?thesis
    by (simp add: take_bit_eq_mod)
qed

lemma unat_top_byte:
  fixes a :: "32 word"
  shows "unat a div 2 ^ 24 mod 256 = unat a div 2 ^ 24"
proof -
  have "unat a < 2 ^ LENGTH(32)"
    by (rule unsigned_less)
  then have "unat a div 2 ^ 24 < 256"
    by simp
  then show ?thesis
    by simp
qed

lemma unat_timestamp:
  fixes s n :: "32 word"
  shows "unat ((ucast s :: 64 word) * 1000000000 + ucast n) = unat s * 1000000000 + unat n"
    and "unat s * 1000000000 + unat n < 2 ^ 64"
proof -
  have s: "unat s < 2 ^ LENGTH(32)" and n: "unat n < 2 ^ LENGTH(32)"
    by (rule unsigned_less)+
  have us: "unat (ucast s :: 64 word) = unat s" "unat (ucast n :: 64 word) = unat n"
    using s n by (simp_all add: unsigned_ucast_eq take_bit_nat_eq_self)
  show lt: "unat s * 1000000000 + unat n < 2 ^ 64"
    using s n by simp
  then show "unat ((ucast s :: 64 word) * 1000000000 + ucast n) = unat s * 1000000000 + unat n"
    using us by (simp add: unat_word_ariths)
qed

subsection \<open>Addresses as text\<close>

text \<open>\<open>itoa\<close> writes the decimal digits of its argument.\<close>

lemma digit_value_digit_char:
  assumes "n < 10"
  shows "digit_value (digit_char n) = n"
proof -
  have "n \<in> {0, 1, 2, 3, 4, 5, 6, 7, 8, 9}"
    using assms by auto
  then show ?thesis
    by (elim insertE emptyE) (simp_all add: digit_char_def digit_value_def)
qed

lemma decimal_value_itoa: "decimal_value (itoa n) = n"
proof (induction n rule: itoa.induct)
  case (1 n)
  show ?case
  proof (cases "n < 10")
    case True
    then show ?thesis
      by (subst itoa.simps) (simp add: decimal_value_def digit_value_digit_char)
  next
    case False
    then have "decimal_value (itoa (n div 10)) = n div 10"
      using "1.IH" by simp
    then show ?thesis
      using False
      by (subst itoa.simps) (simp add: decimal_value_def digit_value_digit_char)
  qed
qed

lemma IP_String_examples:
  "IP_String (intToIPv4Addr 0x0A000001) = ''10.0.0.1''"
  "IP_String (intToIPv4Addr 0xC0000207) = ''192.0.2.7''"
  "IP_String (intToIPv4Addr 0) = ''0.0.0.0''"
  by (simp_all add: intToIPv4Addr_def itoa.simps digit_char_def)

subsection \<open>The cache\<close>

lemmas example_defs =
  example_env_def example_header_def example_record_def example_world_def

lemmas cache_defs =
  lookUpWithCache_def map_index_def cache_expired_def net_LookupAddr_def cache_store_def
  time_Now_def zero_cacheRecord_def After_def

lemma slow_path_iff:
  "slow_path env ip w \<longleftrightarrow>
     map_index (cache w) ip = zero_cacheRecord
     \<or> timeout (map_index (cache w) ip) < clock env (clock_reads w)"
  by (simp add: slow_path_def cache_expired_def time_Now_def After_def)




lemma lookUp_slow_empty:
  assumes "slow_path env ip w" and "resolver env (length (lookups w)) ip = ([], None)"
  shows "fst (lookUpWithCache env ip w) = Inl IndexOutOfRange"
    and "cache (snd (lookUpWithCache env ip w)) = cache w"
  using assms
  by (simp_all add: slow_path_def lookUpWithCache_def cache_expired_def time_Now_def
      net_LookupAddr_def split: if_splits)

lemma lookUp_Inl_iff:
  "fst (lookUpWithCache env ip w) = Inl p \<longleftrightarrow>
     slow_path env ip w \<and> resolver env (length (lookups w)) ip = ([], None)"
  by (cases p)
    (auto simp: slow_path_def lookUpWithCache_def cache_expired_def time_Now_def
      net_LookupAddr_def Let_def split: prod.splits list.splits if_splits)

lemma lookUp_ok:
  assumes "resolver env (length (lookups w)) ip \<noteq> ([], None)"
  shows "\<exists>name. fst (lookUpWithCache env ip w) = Inr name"
  using assms lookUp_Inl_iff [of env ip w]
  by (cases "fst (lookUpWithCache env ip w)") auto

lemma lookUp_logged: "logged (snd (lookUpWithCache env ip w)) = logged w"
  by (auto simp: lookUpWithCache_def cache_expired_def time_Now_def net_LookupAddr_def
      cache_store_def Let_def split: prod.splits list.splits if_splits)

lemma resolver_ok_example: "resolver_ok example_env"
  by (simp add: resolver_ok_def example_env_def)

subsection \<open>Enrichment\<close>

lemma decodeRecord_Inr:
  assumes "fst (decodeRecord env h r host w) = Inr d"
  shows "hdr d = h\<lparr>SamplingInterval := 16383 AND SamplingInterval h\<rparr>"
    and "binRecord d = r"
    and "Host d = host"
    and "SamplingAlgorithm d = ucast (3 AND drop_bit 14 (SamplingInterval h))"
    and "Ipv4SrcAddr d = IP_String (intToIPv4Addr (Ipv4SrcAddrInt r))"
    and "Ipv4DstAddr d = IP_String (intToIPv4Addr (Ipv4DstAddrInt r))"
    and "Ipv4NextHop d = IP_String (intToIPv4Addr (Ipv4NextHopInt r))"
    and "Duration d = ucast ((LastInt r - FirstInt r) div 1000)"
  using assms
  by (auto simp: decodeRecord_def Let_def split: prod.splits sum.splits)

text \<open>With a resolver that names a host whenever it succeeds, every record is decoded.\<close>

lemma decodeRecord_ok:
  assumes "resolver_ok env"
  shows "\<exists>d. fst (decodeRecord env h r host w) = Inr d"
proof -
  let ?src = "IP_String (intToIPv4Addr (Ipv4SrcAddrInt r))"
  let ?dst = "IP_String (intToIPv4Addr (Ipv4DstAddrInt r))"
  obtain s w1 where 1: "lookUpWithCache env ?src w = (Inr s, w1)"
    using lookUp_ok [of env w ?src] assms
    by (metis resolver_ok_def prod.collapse)
  obtain t w2 where 2: "lookUpWithCache env ?dst w1 = (Inr t, w2)"
    using lookUp_ok [of env w1 ?dst] assms
    by (metis resolver_ok_def prod.collapse)
  show ?thesis
    using 1 2 by (simp add: decodeRecord_def Let_def)
qed

lemma decodeRecord_logged: "logged (snd (decodeRecord env h r host w)) = logged w"
  using lookUp_logged
  by (auto simp: decodeRecord_def Let_def split: prod.splits sum.splits) (metis snd_conv)+

lemma decodeRecord_total:
  assumes "resolver_ok env"
  obtains d w' where "decodeRecord env h r host w = (Inr d, w')"
    and "hdr d = h\<lparr>SamplingInterval := 16383 AND SamplingInterval h\<rparr>"
    and "binRecord d = r" and "Host d = host" and "logged w' = logged w"
proof -
  obtain d where d: "fst (decodeRecord env h r host w) = Inr d"
    using decodeRecord_ok [OF assms] by blast
  have "decodeRecord env h r host w = (Inr d, snd (decodeRecord env h r host w))"
    using d by (metis prod.collapse)
  then show ?thesis
    using that decodeRecord_Inr(1-3) [OF d] decodeRecord_logged [of env h r host w] by blast
qed

lemma decodeRecord_example:
  "fst (decodeRecord example_env example_header example_record ''192.0.2.9'' example_world)
     = Inr example_decoded"
  by (simp add: decodeRecord_def IP_String_examples example_defs cache_defs example_decoded_def)

lemma decodeRecord_long_flow:
  "fst (decodeRecord example_env example_header long_flow ''192.0.2.9'' example_world)
     = Inr (example_decoded\<lparr>binRecord := long_flow, Duration := 0\<rparr>)"
  by (simp add: decodeRecord_def IP_String_examples example_defs cache_defs example_decoded_def
      long_flow_def)

subsection \<open>Duration\<close>

text \<open>
  Claim C1 says that the derived duration of every raw record is
  \<open>((last - first) mod 2^32) / 1000\<close>. The field \<^verbatim>\<open>Duration\<close> is a
  \<^verbatim>\<open>uint16\<close> and the quotient is cast to it, so the claim fails for a flow of
  65536000 milliseconds: the quotient is 65536 and the duration stored is 0.
\<close>

theorem Duration_is_not_the_quotient:
  "fst (decodeRecord example_env example_header long_flow ''192.0.2.9'' example_world)
     = Inr (example_decoded\<lparr>binRecord := long_flow, Duration := 0\<rparr>)
   \<and> uint (Duration (example_decoded\<lparr>binRecord := long_flow, Duration := 0\<rparr>)) = 0
   \<and> ((uint (LastInt long_flow) - uint (FirstInt long_flow)) mod 2 ^ 32) div 1000 = 65536"
  by (simp add: decodeRecord_long_flow) (simp add: long_flow_def)

text \<open>
  Claim C1, amended: for every raw record that \<^verbatim>\<open>decodeRecord\<close> decodes, the derived
  duration equals \<open>((last - first) mod 2^32) / 1000\<close>, the subtraction wrapping and the
  division truncating, whenever that quotient is below \<open>2^16\<close>; in particular for
  \<open>first = 0xFFFFFFF0\<close> and \<open>last = 0x00000010\<close> the duration is 0.
\<close>

theorem Duration_is_the_quotient_below_65536:
  assumes "fst (decodeRecord env h r host w) = Inr d"
  shows "(((uint (LastInt r) - uint (FirstInt r)) mod 2 ^ 32) div 1000 < 2 ^ 16 \<longrightarrow>
            uint (Duration d) = ((uint (LastInt r) - uint (FirstInt r)) mod 2 ^ 32) div 1000)
         \<and> (FirstInt r = 0xFFFFFFF0 \<and> LastInt r = 0x00000010 \<longrightarrow> Duration d = 0)"
  using decodeRecord_Inr(8) [OF assms] by (auto simp: uint_duration)

theorem Duration_is_the_quotient_below_65536_witness:
  "fst (decodeRecord example_env example_header example_record ''192.0.2.9'' example_world)
     = Inr example_decoded
   \<and> ((uint (LastInt example_record) - uint (FirstInt example_record)) mod 2 ^ 32) div 1000 < 2 ^ 16
   \<and> FirstInt example_record = 0xFFFFFFF0 \<and> LastInt example_record = 0x00000010
   \<and> uint (Duration example_decoded)
       = ((uint (LastInt example_record) - uint (FirstInt example_record)) mod 2 ^ 32) div 1000
   \<and> Duration example_decoded = 0"
  using Duration_is_the_quotient_below_65536 [OF decodeRecord_example]
  by (simp add: decodeRecord_example) (simp add: example_record_def example_decoded_def)

text \<open>
  Claim C9: the duration stored is a 16-bit value. For every raw record a decoded record
  is produced (the resolver being one that names a host whenever it reports success), and
  the duration it stores is \<open>((last - first) mod 2^32) / 1000\<close> reduced modulo \<open>2^16\<close>
  by the cast to \<^verbatim>\<open>uint16\<close>; when the quotient exceeds 65535, which is when the
  difference is at least 65536000 (about 18.2 hours of milliseconds), the value stored is
  not the quotient. The same holds of any record that \<^verbatim>\<open>decodeRecord\<close> returns,
  whatever the resolver.
\<close>

theorem Duration_wraps_at_16_bits:
  "(resolver_ok env \<longrightarrow>
      (\<exists>d. fst (decodeRecord env h r host w) = Inr d
         \<and> uint (Duration d)
             = ((uint (LastInt r) - uint (FirstInt r)) mod 2 ^ 32) div 1000 mod 2 ^ 16
         \<and> (65535 < ((uint (LastInt r) - uint (FirstInt r)) mod 2 ^ 32) div 1000 \<longrightarrow>
              uint (Duration d) \<noteq> ((uint (LastInt r) - uint (FirstInt r)) mod 2 ^ 32) div 1000)))
   \<and> (fst (decodeRecord env h r host w) = Inr d' \<longrightarrow>
        uint (Duration d')
          = ((uint (LastInt r) - uint (FirstInt r)) mod 2 ^ 32) div 1000 mod 2 ^ 16
        \<and> (65535 < ((uint (LastInt r) - uint (FirstInt r)) mod 2 ^ 32) div 1000 \<longrightarrow>
             uint (Duration d') \<noteq> ((uint (LastInt r) - uint (FirstInt r)) mod 2 ^ 32) div 1000))
   \<and> (65535 < ((uint (LastInt r) - uint (FirstInt r)) mod 2 ^ 32) div 1000 \<longleftrightarrow>
        65536000 \<le> (uint (LastInt r) - uint (FirstInt r)) mod 2 ^ 32)"
proof -
  let ?q = "((uint (LastInt r) - uint (FirstInt r)) mod 2 ^ 32) div 1000"
  have stored: "uint (Duration x) = ?q mod 2 ^ 16 \<and> (65535 < ?q \<longrightarrow> uint (Duration x) \<noteq> ?q)"
    if "fst (decodeRecord env h r host w) = Inr x" for x
  proof -
    have 1: "uint (Duration x) = ?q mod 2 ^ 16"
      using decodeRecord_Inr(8) [OF that] by (simp add: uint_duration)
    have "?q mod 2 ^ 16 < 65536"
      by simp
    then have "65535 < ?q \<longrightarrow> uint (Duration x) \<noteq> ?q"
      using 1 by linarith
    then show ?thesis
      using 1 by blast
  qed
  have produced: "\<exists>x. fst (decodeRecord env h r host w) = Inr x
      \<and> uint (Duration x) = ?q mod 2 ^ 16 \<and> (65535 < ?q \<longrightarrow> uint (Duration x) \<noteq> ?q)"
    if "resolver_ok env"
    using decodeRecord_ok [OF that, of h r host w] stored by blast
  have bound: "65535 < ?q \<longleftrightarrow> 65536000 \<le> (uint (LastInt r) - uint (FirstInt r)) mod 2 ^ 32"
    by linarith
  show ?thesis
    using stored [of d'] produced bound by blast
qed

theorem Duration_wraps_at_16_bits_witness:
  "resolver_ok example_env
   \<and> (\<exists>d. fst (decodeRecord example_env example_header long_flow ''192.0.2.9'' example_world)
              = Inr d
         \<and> uint (Duration d)
             = ((uint (LastInt long_flow) - uint (FirstInt long_flow)) mod 2 ^ 32) div 1000
               mod 2 ^ 16
         \<and> uint (Duration d)
             \<noteq> ((uint (LastInt long_flow) - uint (FirstInt long_flow)) mod 2 ^ 32) div 1000)
   \<and> fst (decodeRecord example_env example_header long_flow ''192.0.2.9'' example_world)
       = Inr (example_decoded\<lparr>binRecord := long_flow, Duration := 0\<rparr>)
   \<and> 65535 < ((uint (LastInt long_flow) - uint (FirstInt long_flow)) mod 2 ^ 32) div 1000
   \<and> 65536000 \<le> (uint (LastInt long_flow) - uint (FirstInt long_flow)) mod 2 ^ 32
   \<and> uint (Duration (example_decoded\<lparr>binRecord := long_flow, Duration := 0\<rparr>))
       = ((uint (LastInt long_flow) - uint (FirstInt long_flow)) mod 2 ^ 32) div 1000 mod 2 ^ 16
   \<and> uint (Duration (example_decoded\<lparr>binRecord := long_flow, Duration := 0\<rparr>))
       \<noteq> ((uint (LastInt long_flow) - uint (FirstInt long_flow)) mod 2 ^ 32) div 1000"
proof -
  have ok: "resolver_ok example_env"
    by (rule resolver_ok_example)
  have big: "65535 < ((uint (LastInt long_flow) - uint (FirstInt long_flow)) mod 2 ^ 32) div 1000"
    by (simp add: long_flow_def)
  show ?thesis
    using Duration_wraps_at_16_bits
      [of example_env example_header long_flow "''192.0.2.9''" example_world
        "example_decoded\<lparr>binRecord := long_flow, Duration := 0\<rparr>"]
      ok big decodeRecord_long_flow
    by simp
qed

subsection \<open>Sampling\<close>

text \<open>
  Claim C2: for every raw record a decoded record is produced (the resolver being one
  that names a host whenever it reports success), its sampling algorithm is
  \<open>(raw >> 14) & 0x3\<close> and its sampling-interval field is overwritten with
  \<open>raw & 0x3FFF\<close>, where \<open>raw\<close> is the packed field of the header: the two top bits
  and the fourteen low bits, so the interval stored is below \<open>2^14\<close> and the packed form
  is gone. Packed \<open>0xC064\<close> gives algorithm 3 and interval 100. The same holds of any
  record that \<^verbatim>\<open>decodeRecord\<close> returns, whatever the resolver.
\<close>

theorem sampling_field_is_unpacked:
  "(resolver_ok env \<longrightarrow>
      (\<exists>d. fst (decodeRecord env h r host w) = Inr d
         \<and> SamplingAlgorithm d = ucast (drop_bit 14 (SamplingInterval h) AND 0x3)
         \<and> SamplingInterval (hdr d) = SamplingInterval h AND 0x3FFF
         \<and> unat (SamplingAlgorithm d) = unat (SamplingInterval h) div 2 ^ 14
         \<and> unat (SamplingInterval (hdr d)) = unat (SamplingInterval h) mod 2 ^ 14
         \<and> (SamplingInterval h = 0xC064 \<longrightarrow>
              SamplingAlgorithm d = 3 \<and> SamplingInterval (hdr d) = 100)))
   \<and> (fst (decodeRecord env h r host w) = Inr d' \<longrightarrow>
        SamplingAlgorithm d' = ucast (drop_bit 14 (SamplingInterval h) AND 0x3)
        \<and> SamplingInterval (hdr d') = SamplingInterval h AND 0x3FFF
        \<and> unat (SamplingAlgorithm d') = unat (SamplingInterval h) div 2 ^ 14
        \<and> unat (SamplingInterval (hdr d')) = unat (SamplingInterval h) mod 2 ^ 14
        \<and> (SamplingInterval h = 0xC064 \<longrightarrow>
             SamplingAlgorithm d' = 3 \<and> SamplingInterval (hdr d') = 100))"
proof -
  have unpacked: "SamplingAlgorithm x = ucast (drop_bit 14 (SamplingInterval h) AND 0x3)
      \<and> SamplingInterval (hdr x) = SamplingInterval h AND 0x3FFF
      \<and> unat (SamplingAlgorithm x) = unat (SamplingInterval h) div 2 ^ 14
      \<and> unat (SamplingInterval (hdr x)) = unat (SamplingInterval h) mod 2 ^ 14
      \<and> (SamplingInterval h = 0xC064 \<longrightarrow>
           SamplingAlgorithm x = 3 \<and> SamplingInterval (hdr x) = 100)"
    if "fst (decodeRecord env h r host w) = Inr x" for x
    using decodeRecord_Inr(1,4) [OF that]
    by (simp_all add: unat_sampling and.commute [of _ "16383 :: 16 word"]
        and.commute [of _ "3 :: 16 word"])
  have produced: "\<exists>x. fst (decodeRecord env h r host w) = Inr x
      \<and> SamplingAlgorithm x = ucast (drop_bit 14 (SamplingInterval h) AND 0x3)
      \<and> SamplingInterval (hdr x) = SamplingInterval h AND 0x3FFF
      \<and> unat (SamplingAlgorithm x) = unat (SamplingInterval h) div 2 ^ 14
      \<and> unat (SamplingInterval (hdr x)) = unat (SamplingInterval h) mod 2 ^ 14
      \<and> (SamplingInterval h = 0xC064 \<longrightarrow>
           SamplingAlgorithm x = 3 \<and> SamplingInterval (hdr x) = 100)"
    if "resolver_ok env"
    using decodeRecord_ok [OF that, of h r host w] unpacked by blast
  show ?thesis
    using unpacked [of d'] produced by blast
qed

theorem sampling_field_is_unpacked_witness:
  "resolver_ok example_env
   \<and> (\<exists>d. fst (decodeRecord example_env example_header example_record ''192.0.2.9''
                 example_world) = Inr d
         \<and> SamplingAlgorithm d = 3 \<and> SamplingInterval (hdr d) = 100)
   \<and> fst (decodeRecord example_env example_header example_record ''192.0.2.9'' example_world)
       = Inr example_decoded
   \<and> SamplingInterval example_header = 0xC064
   \<and> SamplingAlgorithm example_decoded = 3
   \<and> SamplingInterval (hdr example_decoded) = 100
   \<and> unat (SamplingAlgorithm example_decoded) = unat (SamplingInterval example_header) div 2 ^ 14
   \<and> unat (SamplingInterval (hdr example_decoded))
       = unat (SamplingInterval example_header) mod 2 ^ 14"
proof -
  have ok: "resolver_ok example_env"
    by (rule resolver_ok_example)
  have packed: "SamplingInterval example_header = 0xC064"
    by (simp add: example_header_def)
  show ?thesis
    using sampling_field_is_unpacked
      [of example_env example_header example_record "''192.0.2.9''" example_world
        example_decoded]
      ok packed decodeRecord_example
    by simp
qed

subsection \<open>Addresses\<close>

text \<open>
  Claim C6: for every 32-bit address the dotted-decimal string has bits 31..24 as its
  first octet, bits 23..16 as the second, bits 15..8 as the third and bits 7..0 as the
  fourth, each printed in decimal; \<open>0x0A000001\<close> gives \<open>10.0.0.1\<close>; and the three
  address strings of a decoded record are made this way from its three integer fields.
\<close>

theorem intToIPv4Addr_dotted_decimal:
  "IP_String (intToIPv4Addr a) =
     itoa (unat a div 2 ^ 24) @ ''.'' @ itoa (unat a div 2 ^ 16 mod 256) @ ''.''
     @ itoa (unat a div 2 ^ 8 mod 256) @ ''.'' @ itoa (unat a mod 256)
   \<and> IP_String (intToIPv4Addr 0x0A000001) = ''10.0.0.1''
   \<and> (fst (decodeRecord env h r host w) = Inr d \<longrightarrow>
        Ipv4SrcAddr d = IP_String (intToIPv4Addr (Ipv4SrcAddrInt r))
        \<and> Ipv4DstAddr d = IP_String (intToIPv4Addr (Ipv4DstAddrInt r))
        \<and> Ipv4NextHop d = IP_String (intToIPv4Addr (Ipv4NextHopInt r)))"
proof -
  have "IP_String (intToIPv4Addr a) =
     itoa (unat a div 2 ^ 24) @ ''.'' @ itoa (unat a div 2 ^ 16 mod 256) @ ''.''
     @ itoa (unat a div 2 ^ 8 mod 256) @ ''.'' @ itoa (unat a mod 256)"
    unfolding intToIPv4Addr_def IP_String.simps
    by (simp only: unat_low_byte unat_drop_bit_div unat_top_byte)
  then show ?thesis
    using IP_String_examples(1) decodeRecord_Inr(5-7) by blast
qed

theorem intToIPv4Addr_dotted_decimal_witness:
  "fst (decodeRecord example_env example_header example_record ''192.0.2.9'' example_world)
     = Inr example_decoded
   \<and> Ipv4SrcAddr example_decoded = IP_String (intToIPv4Addr (Ipv4SrcAddrInt example_record))
   \<and> Ipv4DstAddr example_decoded = IP_String (intToIPv4Addr (Ipv4DstAddrInt example_record))
   \<and> Ipv4NextHop example_decoded = IP_String (intToIPv4Addr (Ipv4NextHopInt example_record))
   \<and> Ipv4SrcAddr example_decoded = ''10.0.0.1''
   \<and> IP_String (intToIPv4Addr 0xC0000207)
       = itoa (unat (0xC0000207 :: 32 word) div 2 ^ 24) @ ''.''
         @ itoa (unat (0xC0000207 :: 32 word) div 2 ^ 16 mod 256) @ ''.''
         @ itoa (unat (0xC0000207 :: 32 word) div 2 ^ 8 mod 256) @ ''.''
         @ itoa (unat (0xC0000207 :: 32 word) mod 256)"
  using intToIPv4Addr_dotted_decimal
    [of "0xC0000207" example_env example_header example_record "''192.0.2.9''" example_world
      example_decoded]
  by (simp add: decodeRecord_example) (simp add: example_decoded_def)

subsection \<open>The wire layout\<close>

lemma Uint16_bytes: "Uint16 (ucast (drop_bit 8 v) # ucast v # rest) = v"
  unfolding Uint16_def
  by (rule bit_word_eqI) (auto simp: bit_simps)

lemma Uint32_bytes:
  "Uint32 (ucast (drop_bit 24 v) # ucast (drop_bit 16 v) # ucast (drop_bit 8 v) # ucast v # rest)
     = v"
proof (rule bit_word_eqI)
  fix n
  assume "n < LENGTH(32)"
  then show "bit (Uint32 (ucast (drop_bit 24 v) # ucast (drop_bit 16 v) # ucast (drop_bit 8 v)
                   # ucast v # rest)) n = bit v n"
    unfolding Uint32_def
    by (cases "n < 8"; cases "n < 16"; cases "n < 24") (auto simp: bit_simps)
qed

lemma Uint8_bytes: "Uint8 (b # rest) = b"
  by (simp add: Uint8_def)

lemma length_encode_header: "length (encode_header h) = 24"
  by (simp add: encode_header_def PutUint16_def PutUint32_def)

lemma length_encode_binaryRecord: "length (encode_binaryRecord pad1 pad2 r) = 48"
  by (simp add: encode_binaryRecord_def PutUint16_def PutUint32_def)

lemma decode_encode_header: "decode_header (encode_header h) = h"
  by (simp add: decode_header_def encode_header_def PutUint16_def PutUint32_def
      Uint16_bytes Uint32_bytes Uint8_bytes)

lemma decode_encode_binaryRecord: "decode_binaryRecord (encode_binaryRecord pad1 pad2 r) = r"
  by (simp add: decode_binaryRecord_def encode_binaryRecord_def PutUint16_def PutUint32_def
      Uint16_bytes Uint32_bytes Uint8_bytes)

lemma binary_Read_header_encode:
  "binary_Read_header (encode_header h @ rest) = Inr (h, rest)"
  by (simp add: binary_Read_header_def io_ReadFull_def header_size_def length_encode_header
      decode_encode_header)

lemma binary_Read_binaryRecord_short:
  assumes "length buf < 48"
  shows "binary_Read_binaryRecord buf = Inl (if buf = [] then EOF else ErrUnexpectedEOF)"
  using assms by (simp add: binary_Read_binaryRecord_def io_ReadFull_def binaryRecord_size_def)

lemma binary_Read_binaryRecord_full:
  assumes "48 \<le> length buf"
  shows "binary_Read_binaryRecord buf = Inr (decode_binaryRecord (take 48 buf), drop 48 buf)"
  using assms by (simp add: binary_Read_binaryRecord_def io_ReadFull_def binaryRecord_size_def)

lemma length_encode_records: "length (encode_records rs) = 48 * length rs"
  by (induction rs) (auto simp: encode_records_def length_encode_binaryRecord)

lemma encode_records_Cons:
  "encode_records ((pad1, pad2, r) # rs) = encode_binaryRecord pad1 pad2 r @ encode_records rs"
  by (simp add: encode_records_def)

text \<open>The \<open>i\<close>-th group of 48 bytes of an encoded list of records decodes to the \<open>i\<close>-th record.\<close>

lemma chunk_encode_records:
  assumes "i < length rs"
  shows "decode_binaryRecord (take 48 (drop (48 * i) (encode_records rs))) = snd (snd (rs ! i))"
  using assms
proof (induction rs arbitrary: i)
  case Nil
  then show ?case by simp
next
  case (Cons x rs)
  obtain pad1 pad2 r where x: "x = (pad1, pad2, r)"
    by (cases x) auto
  show ?case
  proof (cases i)
    case 0
    then show ?thesis
      by (simp add: x encode_records_Cons length_encode_binaryRecord decode_encode_binaryRecord)
  next
    case (Suc j)
    then have "j < length rs"
      using Cons.prems by simp
    then show ?thesis
      using Cons.IH [of j] Suc
      by (simp add: x encode_records_Cons length_encode_binaryRecord)
  qed
qed

subsection \<open>The loop over the records\<close>

text \<open>
  With a resolver that names a host whenever it succeeds, the loop decodes the complete
  records of the buffer in their order, up to the number asked for, and logs one error
  when the buffer ends before that number is reached.
\<close>

lemma handleRecords_complete:
  assumes "resolver_ok env"
  shows "\<exists>ds w'. handleRecords env h host n buf w = (ds, Returned, w')
          \<and> length ds = min n (length buf div 48)
          \<and> (\<forall>i < length ds.
                binRecord (ds ! i) = decode_binaryRecord (take 48 (drop (48 * i) buf))
                \<and> hdr (ds ! i) = h\<lparr>SamplingInterval := 16383 AND SamplingInterval h\<rparr>
                \<and> Host (ds ! i) = host)
          \<and> logged w' = logged w @
                (if length buf div 48 < n
                 then [''binary.Read failed: ''
                        @ Error (if length buf mod 48 = 0 then EOF else ErrUnexpectedEOF)]
                 else [])"
proof (induction n arbitrary: buf w)
  case 0
  then show ?case by simp
next
  case (Suc n)
  show ?case
  proof (cases "length buf < 48")
    case True
    then have "length buf div 48 = 0" "length buf mod 48 = length buf"
      by simp_all
    then show ?thesis
      using True by (simp add: binary_Read_binaryRecord_short log_Printf_def)
  next
    case False
    then have full: "48 \<le> length buf"
      by simp
    let ?r = "decode_binaryRecord (take 48 buf)"
    let ?h = "h\<lparr>SamplingInterval := 16383 AND SamplingInterval h\<rparr>"
    obtain d w1 where d: "decodeRecord env h ?r host w = (Inr d, w1)"
      and dh: "hdr d = ?h" and dr: "binRecord d = ?r" and dhost: "Host d = host"
      and dl: "logged w1 = logged w"
      using decodeRecord_total [OF assms] by metis
    obtain ds w' where rest: "handleRecords env h host n (drop 48 buf) w1 = (ds, Returned, w')"
      and len: "length ds = min n (length (drop 48 buf) div 48)"
      and each: "\<forall>i < length ds.
                  binRecord (ds ! i)
                    = decode_binaryRecord (take 48 (drop (48 * i) (drop 48 buf)))
                  \<and> hdr (ds ! i) = ?h \<and> Host (ds ! i) = host"
      and lg: "logged w' = logged w1 @
                (if length (drop 48 buf) div 48 < n
                 then [''binary.Read failed: ''
                        @ Error (if length (drop 48 buf) mod 48 = 0 then EOF
                                 else ErrUnexpectedEOF)]
                 else [])"
      using Suc.IH [of "drop 48 buf" w1] by blast
    have dv: "length buf div 48 = Suc ((length buf - 48) div 48)"
      using full by (simp add: le_div_geq)
    have md: "(length buf - 48) mod 48 = length buf mod 48"
      using full by (simp add: le_mod_geq)
    have run: "handleRecords env h host (Suc n) buf w = (d # ds, Returned, w')"
      using d rest by (simp add: binary_Read_binaryRecord_full [OF full])
    have l: "length (d # ds) = min (Suc n) (length buf div 48)"
      using len dv by simp
    have e: "\<forall>i < length (d # ds).
               binRecord ((d # ds) ! i) = decode_binaryRecord (take 48 (drop (48 * i) buf))
               \<and> hdr ((d # ds) ! i) = ?h \<and> Host ((d # ds) ! i) = host"
    proof (intro allI impI)
      fix i
      assume i: "i < length (d # ds)"
      show "binRecord ((d # ds) ! i) = decode_binaryRecord (take 48 (drop (48 * i) buf))
              \<and> hdr ((d # ds) ! i) = ?h \<and> Host ((d # ds) ! i) = host"
      proof (cases i)
        case 0
        then show ?thesis
          using dh dr dhost by simp
      next
        case (Suc j)
        then have "j < length ds"
          using i by simp
        moreover have "drop (48 * j) (drop 48 buf) = drop (48 * i) buf"
          using Suc by (simp add: add.commute)
        ultimately show ?thesis
          using each Suc by simp
      qed
    qed
    have g: "logged w' = logged w @
                (if length buf div 48 < Suc n
                 then [''binary.Read failed: ''
                        @ Error (if length buf mod 48 = 0 then EOF else ErrUnexpectedEOF)]
                 else [])"
      using lg dl dv md by simp
    show ?thesis
      using run l e g by blast
  qed
qed

subsection \<open>The version field\<close>

lemma decodeRecord_Version:
  "decodeRecord env (h\<lparr>Version := v\<rparr>) r host w =
     (case decodeRecord env h r host w of
        (Inl p, w1) \<Rightarrow> (Inl p, w1)
      | (Inr d, w1) \<Rightarrow> (Inr (with_Version v d), w1))"
  by (simp add: decodeRecord_def with_Version_def Let_def split: prod.splits sum.splits)

lemma handleRecords_Version:
  "handleRecords env (h\<lparr>Version := v\<rparr>) host n buf w =
     (case handleRecords env h host n buf w of
        (ds, oc, w') \<Rightarrow> (map (with_Version v) ds, oc, w'))"
proof (induction n arbitrary: buf w)
  case 0
  then show ?case by simp
next
  case (Suc n)
  show ?case
    by (simp add: decodeRecord_Version Suc.IH split: sum.splits prod.splits)
qed

lemma binary_Read_header_Version:
  "binary_Read_header (c0 # c1 # rest) =
     (case binary_Read_header (b0 # b1 # rest) of
        Inl err \<Rightarrow> Inl err
      | Inr (h, payload) \<Rightarrow> Inr (h\<lparr>Version := Uint16 [c0, c1]\<rparr>, payload))"
  by (simp add: binary_Read_header_def io_ReadFull_def header_size_def decode_header_def
      Uint16_def)


subsection \<open>Round trip\<close>

text \<open>
  Claim C3 says that a datagram laid out as a 20-byte header followed by \<open>N\<close> records
  decodes to the \<open>N\<close> records. \<^verbatim>\<open>binary.Read\<close> takes the size of the struct
  \<^verbatim>\<open>header\<close>, 24 bytes, so the claim fails for a datagram of 20 + 48 bytes with one
  record: the four bytes after the twentieth are read into the header, 44 bytes are left,
  and the read of the record fails. No record is emitted.
\<close>

theorem roundtrip_fails_with_20_byte_header:
  "length short_header_datagram = 20 + 48 * length [(0 :: byte, 0 :: 16 word, example_record)]
   \<and> handlePacket example_env short_header_datagram ''192.0.2.9'' example_world
       = ([], Returned, example_world\<lparr>logged := [''binary.Read failed: unexpected EOF'']\<rparr>)"
  by (simp add: short_header_datagram_def encode_header_def encode_records_def
      encode_binaryRecord_def PutUint16_def PutUint32_def example_header_def example_record_def
      example_world_def handlePacket_def binary_Read_header_def binary_Read_binaryRecord_def
      io_ReadFull_def header_size_def binaryRecord_size_def decode_header_def Uint16_def
      Uint32_def Uint8_def log_Printf_def)

text \<open>
  Claim C3, amended: for every header and every list of \<open>N\<close> raw records such that the
  header's count field is \<open>N\<close>, encoding them into the big-endian byte layout (a 24-byte
  header followed by \<open>N\<close> records of 48 bytes, padding included, whatever the padding
  bytes hold) and then decoding the resulting datagram emits exactly \<open>N\<close> decoded records
  whose embedded raw records equal the original ones, in their order; the resolver is
  one that names a host whenever it reports success.
\<close>

theorem roundtrip_with_24_byte_header:
  assumes "resolver_ok env" and "unat (FlowRecords h) = length rs"
  shows "\<exists>ds w'. handlePacket env (encode_datagram h rs) host w = (ds, Returned, w')
           \<and> length ds = length rs
           \<and> map binRecord ds = map (\<lambda>(pad1, pad2, r). r) rs
           \<and> length (encode_datagram h rs) = 24 + 48 * length rs"
proof -
  let ?buf = "encode_records rs"
  have hp: "handlePacket env (encode_datagram h rs) host w
              = handleRecords env h host (length rs) ?buf w"
    by (simp add: handlePacket_def encode_datagram_def binary_Read_header_encode assms(2))
  obtain ds w' where run: "handleRecords env h host (length rs) ?buf w = (ds, Returned, w')"
    and len: "length ds = min (length rs) (length ?buf div 48)"
    and each: "\<forall>i < length ds.
                 binRecord (ds ! i) = decode_binaryRecord (take 48 (drop (48 * i) ?buf))
                 \<and> hdr (ds ! i) = h\<lparr>SamplingInterval := 16383 AND SamplingInterval h\<rparr>
                 \<and> Host (ds ! i) = host"
    using handleRecords_complete [OF assms(1), of h host "length rs" ?buf w] by blast
  have l: "length ds = length rs"
    using len by (simp add: length_encode_records)
  have "map binRecord ds = map (\<lambda>(pad1, pad2, r). r) rs"
  proof (rule nth_equalityI)
    show "length (map binRecord ds) = length (map (\<lambda>(pad1, pad2, r). r) rs)"
      using l by simp
  next
    fix i
    assume "i < length (map binRecord ds)"
    then have i: "i < length ds"
      by simp
    then have "binRecord (ds ! i) = snd (snd (rs ! i))"
      using each l chunk_encode_records [of i rs] by simp
    then show "map binRecord ds ! i = map (\<lambda>(pad1, pad2, r). r) rs ! i"
      using i l by (simp add: case_prod_beta)
  qed
  moreover have "length (encode_datagram h rs) = 24 + 48 * length rs"
    by (simp add: encode_datagram_def length_encode_header length_encode_records)
  ultimately show ?thesis
    using hp run l by simp
qed

theorem roundtrip_with_24_byte_header_witness:
  "resolver_ok example_env
   \<and> unat (FlowRecords (example_header\<lparr>FlowRecords := 2\<rparr>)) = length two_records
   \<and> (\<exists>ds w'. handlePacket example_env
                  (encode_datagram (example_header\<lparr>FlowRecords := 2\<rparr>) two_records)
                  ''192.0.2.9'' example_world = (ds, Returned, w')
         \<and> length ds = 2
         \<and> map binRecord ds = [example_record, long_flow])
   \<and> length (encode_datagram (example_header\<lparr>FlowRecords := 2\<rparr>) two_records) = 120"
proof -
  have ok: "resolver_ok example_env"
    by (rule resolver_ok_example)
  have n: "unat (FlowRecords (example_header\<lparr>FlowRecords := 2\<rparr>)) = length two_records"
    by (simp add: two_records_def)
  show ?thesis
    using roundtrip_with_24_byte_header [OF ok n, of "''192.0.2.9''" example_world] ok n
    by (auto simp: two_records_def)
qed

subsection \<open>Truncated datagrams\<close>

text \<open>
  Claim C4: for every datagram whose header declares \<open>N\<close> records and whose payload
  holds only \<open>k < N\<close> complete records, decoding emits exactly the \<open>k\<close> complete
  records, in wire order, logs the failed read, and returns: the rest of the datagram is
  dropped and nothing panics. The resolver is one that names a host whenever it reports
  success. A datagram that declares 2 records and holds 1 yields exactly 1.
\<close>

theorem truncated_datagram_yields_complete_records:
  assumes "resolver_ok env"
    and "binary_Read_header buf = Inr (h, payload)"
    and "length payload div 48 < unat (FlowRecords h)"
  shows "\<exists>ds w'. handlePacket env buf host w = (ds, Returned, w')
           \<and> length ds = length payload div 48
           \<and> (\<forall>i < length ds.
                 binRecord (ds ! i) = decode_binaryRecord (take 48 (drop (48 * i) payload)))
           \<and> logged w' = logged w @
                [''binary.Read failed: ''
                  @ Error (if length payload mod 48 = 0 then EOF else ErrUnexpectedEOF)]"
proof -
  have hp: "handlePacket env buf host w
              = handleRecords env h host (unat (FlowRecords h)) payload w"
    by (simp add: handlePacket_def assms(2))
  obtain ds w' where
    run: "handleRecords env h host (unat (FlowRecords h)) payload w = (ds, Returned, w')"
    and len: "length ds = min (unat (FlowRecords h)) (length payload div 48)"
    and each: "\<forall>i < length ds.
                 binRecord (ds ! i) = decode_binaryRecord (take 48 (drop (48 * i) payload))
                 \<and> hdr (ds ! i) = h\<lparr>SamplingInterval := 16383 AND SamplingInterval h\<rparr>
                 \<and> Host (ds ! i) = host"
    and lg: "logged w' = logged w @
                (if length payload div 48 < unat (FlowRecords h)
                 then [''binary.Read failed: ''
                        @ Error (if length payload mod 48 = 0 then EOF else ErrUnexpectedEOF)]
                 else [])"
    using handleRecords_complete [OF assms(1), of h host "unat (FlowRecords h)" payload w]
    by blast
  show ?thesis
    using hp run len each lg assms(3) by simp
qed

theorem truncated_datagram_yields_complete_records_witness:
  "resolver_ok example_env
   \<and> binary_Read_header truncated_datagram
       = Inr (example_header\<lparr>FlowRecords := 2\<rparr>, encode_binaryRecord 0 0 example_record @ [1, 2, 3])
   \<and> length (encode_binaryRecord 0 0 example_record @ [1, 2, 3 :: byte]) div 48
       < unat (FlowRecords (example_header\<lparr>FlowRecords := 2\<rparr>))
   \<and> (\<exists>ds w'. handlePacket example_env truncated_datagram ''192.0.2.9'' example_world
                  = (ds, Returned, w')
         \<and> length ds = 1
         \<and> binRecord (ds ! 0) = example_record
         \<and> logged w' = [''binary.Read failed: unexpected EOF''])"
proof -
  let ?payload = "encode_binaryRecord 0 0 example_record @ [1, 2, 3 :: byte]"
  have ok: "resolver_ok example_env"
    by (rule resolver_ok_example)
  have rd: "binary_Read_header truncated_datagram
              = Inr (example_header\<lparr>FlowRecords := 2\<rparr>, ?payload)"
    by (simp add: truncated_datagram_def encode_datagram_def encode_records_def
        binary_Read_header_encode)
  have lt: "length ?payload div 48 < unat (FlowRecords (example_header\<lparr>FlowRecords := 2\<rparr>))"
    by (simp add: length_encode_binaryRecord)
  have first: "decode_binaryRecord (take 48 (drop (48 * 0) ?payload)) = example_record"
    by (simp add: length_encode_binaryRecord decode_encode_binaryRecord)
  show ?thesis
    using truncated_datagram_yields_complete_records
      [OF ok rd lt, of "''192.0.2.9''" example_world] ok rd lt first
    by (auto simp: length_encode_binaryRecord example_world_def)
qed

subsection \<open>The version field is not checked\<close>

text \<open>
  Claim C8: decoding never rejects a datagram because of the version field of its header.
  Two datagrams that differ only in their first two bytes, the version, are handled
  alike: the same records are emitted in the same order, each carrying the version of its
  own datagram and equal otherwise, the run ends the same way and leaves the same world.
  This holds for every datagram, also one whose header does not parse (the header takes 24
  bytes), and for every version, 5 or not.
\<close>

theorem handlePacket_ignores_Version:
  "handlePacket env (c0 # c1 # rest) host w =
     (case handlePacket env (b0 # b1 # rest) host w of
        (ds, oc, w') \<Rightarrow> (map (with_Version (Uint16 [c0, c1])) ds, oc, w'))"
proof (cases "binary_Read_header (b0 # b1 # rest)")
  case (Inl err)
  then show ?thesis
    using binary_Read_header_Version [of c0 c1 rest b0 b1]
    by (simp add: handlePacket_def)
next
  case (Inr x)
  then obtain h payload where x: "binary_Read_header (b0 # b1 # rest) = Inr (h, payload)"
    by (cases x) auto
  then have "binary_Read_header (c0 # c1 # rest)
               = Inr (h\<lparr>Version := Uint16 [c0, c1]\<rparr>, payload)"
    using binary_Read_header_Version [of c0 c1 rest b0 b1] by simp
  then show ?thesis
    using x by (simp add: handlePacket_def handleRecords_Version)
qed

text \<open>The datagram of the example with version 9 in place of 5 yields the same record.\<close>

lemma handlePacket_version_9:
  "fst (handlePacket example_env (encode_datagram (example_header\<lparr>Version := 9\<rparr>)
          [(0, 0, example_record)]) ''192.0.2.9'' example_world)
     = [with_Version 9 example_decoded]"
proof -
  have n: "unat (FlowRecords example_header) = Suc 0"
    by (simp add: example_header_def)
  have "handlePacket example_env (encode_datagram (example_header\<lparr>Version := 9\<rparr>)
          [(0, 0, example_record)]) ''192.0.2.9'' example_world
        = handleRecords example_env (example_header\<lparr>Version := 9\<rparr>) ''192.0.2.9'' (Suc 0)
            (encode_binaryRecord 0 0 example_record) example_world"
    by (simp add: handlePacket_def encode_datagram_def encode_records_def
        binary_Read_header_encode n)
  moreover have "binary_Read_binaryRecord (encode_binaryRecord 0 0 example_record)
                   = Inr (example_record, [])"
    by (simp add: binary_Read_binaryRecord_full length_encode_binaryRecord
        decode_encode_binaryRecord)
  moreover obtain w1 where
    "decodeRecord example_env example_header example_record ''192.0.2.9'' example_world
       = (Inr example_decoded, w1)"
    using decodeRecord_example by (metis prod.collapse)
  ultimately show ?thesis
    by (simp add: decodeRecord_Version)
qed

subsection \<open>Line protocol\<close>

text \<open>
  Claim C7: for every decoded record the text sent by the UDP sink is
  \<^verbatim>\<open>netflow\<close>, then the ten tags host, srcAddr, dstAddr, srcHostName, dstHostName,
  protocol, srcPort, dstPort, input and output, each as \<^verbatim>\<open>,name=value\<close>, a space, the
  three fields inBytes, inPackets and duration separated by commas, a space, and the
  timestamp \<open>unixSec * 1000000000 + unixNsec\<close>; the values are those of the record, the
  numbers in decimal, and the timestamp does not overflow 64 bits.
\<close>

theorem formatLineProtocol_text:
  "formatLineProtocol d =
     ''netflow''
     @ concat (map (\<lambda>(tag, v). '','' @ tag @ ''='' @ v)
         [(''host'', Host d), (''srcAddr'', Ipv4SrcAddr d), (''dstAddr'', Ipv4DstAddr d),
          (''srcHostName'', SrcHostName d), (''dstHostName'', DstHostName d),
          (''protocol'', itoa (unat (Protocol (binRecord d)))),
          (''srcPort'', itoa (unat (L4SrcPort (binRecord d)))),
          (''dstPort'', itoa (unat (L4DstPort (binRecord d)))),
          (''input'', itoa (unat (InputSnmp (binRecord d)))),
          (''output'', itoa (unat (OutputSnmp (binRecord d))))])
     @ '' '' @ ''inBytes='' @ itoa (unat (InBytes (binRecord d)))
     @ '','' @ ''inPackets='' @ itoa (unat (InPkts (binRecord d)))
     @ '','' @ ''duration='' @ itoa (unat (Duration d))
     @ '' '' @ itoa (unat (UnixSec (hdr d)) * 1000000000 + unat (UnixNsec (hdr d)))
   \<and> unat (UnixSec (hdr d)) * 1000000000 + unat (UnixNsec (hdr d)) < 2 ^ 64"
  using unat_timestamp(2) [of "UnixSec (hdr d)" "UnixNsec (hdr d)"]
  by (simp add: formatLineProtocol_def unat_timestamp(1))

lemma formatLineProtocol_example:
  "formatLineProtocol example_decoded =
     ''netflow,host=192.0.2.9,srcAddr=10.0.0.1,dstAddr=192.0.2.7,srcHostName=gw.example.,dstHostName=192.0.2.7,protocol=6,srcPort=443,dstPort=51000,input=1,output=2 inBytes=1200,inPackets=10,duration=0 1500000000000000007''"
  by (simp add: formatLineProtocol_def example_decoded_def example_header_def
      example_record_def itoa.simps digit_char_def)

subsection \<open>The cache: fast path and slow path\<close>




subsection \<open>The cache: a successful resolution with no name\<close>

text \<open>
  Claim C10: on the slow path the first name of the resolver's answer is taken without a
  guard. When the resolver reports success with an empty list of names,
  \<^verbatim>\<open>hostTemp[0]\<close> is out of range: the call panics and the cache is not written.
  This is the only way the call can fail, so it returns a hostname whenever the
  resolution does not succeed with an empty list. A key that is absent from the cache
  always takes the slow path.
\<close>

theorem lookUpWithCache_panics_on_empty_answer:
  "(slow_path env ip w \<and> resolver env (length (lookups w)) ip = ([], None) \<longrightarrow>
      fst (lookUpWithCache env ip w) = Inl IndexOutOfRange
      \<and> cache (snd (lookUpWithCache env ip w)) = cache w)
   \<and> (fst (lookUpWithCache env ip w) = Inl p \<longrightarrow>
        slow_path env ip w \<and> resolver env (length (lookups w)) ip = ([], None))
   \<and> (resolver env (length (lookups w)) ip \<noteq> ([], None) \<longrightarrow>
        (\<exists>name. fst (lookUpWithCache env ip w) = Inr name))
   \<and> (cache w ip = None \<longrightarrow> slow_path env ip w)"
proof (intro conjI impI)
  assume "slow_path env ip w \<and> resolver env (length (lookups w)) ip = ([], None)"
  then show "fst (lookUpWithCache env ip w) = Inl IndexOutOfRange"
    and "cache (snd (lookUpWithCache env ip w)) = cache w"
    using lookUp_slow_empty by blast+
next
  assume "fst (lookUpWithCache env ip w) = Inl p"
  then show "slow_path env ip w" and "resolver env (length (lookups w)) ip = ([], None)"
    using lookUp_Inl_iff [of env ip w p] by simp_all
next
  assume "resolver env (length (lookups w)) ip \<noteq> ([], None)"
  then show "\<exists>name. fst (lookUpWithCache env ip w) = Inr name"
    by (rule lookUp_ok)
next
  assume "cache w ip = None"
  then show "slow_path env ip w"
    by (simp add: slow_path_iff map_index_def)
qed

theorem lookUpWithCache_panics_on_empty_answer_witness:
  "cache example_world ''10.0.0.1'' = None
   \<and> slow_path empty_answer_env ''10.0.0.1'' example_world
   \<and> resolver empty_answer_env (length (lookups example_world)) ''10.0.0.1'' = ([], None)
   \<and> fst (lookUpWithCache empty_answer_env ''10.0.0.1'' example_world) = Inl IndexOutOfRange
   \<and> cache (snd (lookUpWithCache empty_answer_env ''10.0.0.1'' example_world))
       = cache example_world
   \<and> resolver example_env (length (lookups example_world)) ''10.0.0.1'' \<noteq> ([], None)
   \<and> (\<exists>name. fst (lookUpWithCache example_env ''10.0.0.1'' example_world) = Inr name)"
proof -
  have c: "cache example_world ''10.0.0.1'' = None"
    and r: "resolver empty_answer_env (length (lookups example_world)) ''10.0.0.1'' = ([], None)"
    and g: "resolver example_env (length (lookups example_world)) ''10.0.0.1'' \<noteq> ([], None)"
    by (simp_all add: example_world_def empty_answer_env_def example_env_def)
  have s: "slow_path empty_answer_env ''10.0.0.1'' example_world"
    using lookUpWithCache_panics_on_empty_answer
      [where w = example_world and ip = "''10.0.0.1''" and env = empty_answer_env] c
    by simp
  have p: "fst (lookUpWithCache empty_answer_env ''10.0.0.1'' example_world) = Inl IndexOutOfRange
      \<and> cache (snd (lookUpWithCache empty_answer_env ''10.0.0.1'' example_world))
          = cache example_world"
    using lookUpWithCache_panics_on_empty_answer
      [where w = example_world and ip = "''10.0.0.1''" and env = empty_answer_env] s r
    by simp
  have conv: "slow_path empty_answer_env ''10.0.0.1'' example_world
      \<and> resolver empty_answer_env (length (lookups example_world)) ''10.0.0.1'' = ([], None)"
    using lookUpWithCache_panics_on_empty_answer
      [where w = example_world and ip = "''10.0.0.1''" and env = empty_answer_env
        and p = IndexOutOfRange] p
    by simp
  have t: "\<exists>name. fst (lookUpWithCache example_env ''10.0.0.1'' example_world) = Inr name"
    using lookUpWithCache_panics_on_empty_answer
      [where w = example_world and ip = "''10.0.0.1''" and env = example_env] g
    by simp
  show ?thesis
    using c s r p g t conv by simp
qed

end
